theory Spec2Isabelle
  imports Main
begin

unbundle bit_operations_syntax

section \<open>Go values used by the proxy\<close>

text \<open>
  A Go \<open>error\<close> is a value; \<open>nil\<close> is \<open>None\<close>. The sentinel errors of package
  \<open>io\<close> are constructors, so that the identity test \<open>err != io.EOF\<close> of the relay is a
  comparison of constructors. \<open>Wrapped msg e\<close> is what \<open>errors.Wrap(e, msg)\<close> of
  github.com/pkg/errors builds.
\<close>

datatype error =
    EOF
  | ErrUnexpectedEOF
  | ErrShortBuffer
  | ErrShortWrite
  | Canceled
  | NetError string
  | Wrapped string error

fun Error :: "error \<Rightarrow> string" where
  "Error EOF = ''EOF''"
| "Error ErrUnexpectedEOF = ''unexpected EOF''"
| "Error ErrShortBuffer = ''short buffer''"
| "Error ErrShortWrite = ''short write''"
| "Error Canceled = ''context canceled''"
| "Error (NetError m) = m"
| "Error (Wrapped m e) = m @ '': '' @ Error e"

text \<open>\<open>errors.Wrap\<close> returns nil when the error it is given is nil.\<close>

definition Wrap :: "error option \<Rightarrow> string \<Rightarrow> error option" where
  "Wrap err msg = (case err of None \<Rightarrow> None | Some e \<Rightarrow> Some (Wrapped msg e))"

definition CRLF :: string where
  "CRLF = [CHR 0x0D, CHR 0x0A]"

subsection \<open>config.Config\<close>

record Config =
  Address :: string
  TLSAddress :: string
  DstAddress :: string
  HandshakeCode :: string
  TLSEnabled :: bool
  TLSPrivateKey :: string
  TLSPublicKey :: string
  TLSMode :: string
  ConfigFile :: string
  LogLevel :: string
  MetricsEnabled :: bool
  MetricsPort :: string
  MaxConnections :: int
  Timeout :: int
  BufferSize :: int
  KeepAlive :: bool
  NoDelay :: bool

definition DefaultConfig :: Config where
  "DefaultConfig = \<lparr>
     Address = '':2086'', TLSAddress = '':443'', DstAddress = ''127.0.0.1:22'',
     HandshakeCode = '''', TLSEnabled = False,
     TLSPrivateKey = ''/etc/gowsoos/tls/private.pem'',
     TLSPublicKey = ''/etc/gowsoos/tls/public.key'',
     TLSMode = ''handshake'', ConfigFile = ''/etc/gowsoos/config.yaml'',
     LogLevel = ''info'', MetricsEnabled = False, MetricsPort = '':9090'',
     MaxConnections = 1000, Timeout = 30, BufferSize = 32768,
     KeepAlive = True, NoDelay = True \<rparr>"

subsection \<open>ProxyConnection\<close>

text \<open>
  \<open>ProxyConnection\<close> is an interface (Read, Write, Close); the peer behind it is the
  environment. A connection value carries the peer's script and the calls made so far:
  \<^item> \<open>incoming\<close>: what the successive \<open>Read\<close> calls deliver, each entry the bytes that
    arrive together and the error that comes with them (\<open>None\<close> for nil); when the
    script is used up the peer has closed and \<open>Read\<close> returns \<open>(0, io.EOF)\<close>;
  \<^item> \<open>write_results\<close>: the error the successive \<open>Write\<close> calls return; when the list is
    used up writes succeed;
  \<^item> \<open>calls\<close>: every call made on the connection, in order, with its argument.
\<close>

datatype conn_call = Read_call nat | Write_call string | Close_call

record conn =
  incoming :: "(string \<times> error option) list"
  write_results :: "error option list"
  calls :: "conn_call list"

text \<open>
  \<open>Read(p)\<close> with \<open>len(p) = cap\<close>: at most \<open>cap\<close> bytes are returned; what does not fit
  stays at the head of the stream, and the error of the entry comes with its last byte.
\<close>

definition conn_Read :: "nat \<Rightarrow> conn \<Rightarrow> (string \<times> error option) \<times> conn" where
  "conn_Read cap c =
     (case incoming c of
        [] \<Rightarrow> (([], Some EOF), c\<lparr>calls := calls c @ [Read_call cap]\<rparr>)
      | (d, e) # rest \<Rightarrow>
          if length d \<le> cap
          then ((d, e), c\<lparr>incoming := rest, calls := calls c @ [Read_call cap]\<rparr>)
          else ((take cap d, None),
                c\<lparr>incoming := (drop cap d, e) # rest, calls := calls c @ [Read_call cap]\<rparr>))"

text \<open>\<open>Write(p)\<close>: a write that succeeds takes all of \<open>p\<close>; one that fails takes nothing.\<close>

definition conn_Write :: "string \<Rightarrow> conn \<Rightarrow> (nat \<times> error option) \<times> conn" where
  "conn_Write p c =
     (case write_results c of
        [] \<Rightarrow> ((length p, None), c\<lparr>calls := calls c @ [Write_call p]\<rparr>)
      | r # rs \<Rightarrow>
          ((if r = None then length p else 0, r),
           c\<lparr>write_results := rs, calls := calls c @ [Write_call p]\<rparr>))"

definition conn_Close :: "conn \<Rightarrow> conn" where
  "conn_Close c = c\<lparr>calls := calls c @ [Close_call]\<rparr>"

text \<open>The arguments of the \<open>Write\<close> calls, and the number of \<open>Read\<close> calls, of a call list.\<close>

fun writes_of :: "conn_call list \<Rightarrow> string list" where
  "writes_of [] = []"
| "writes_of (Write_call p # cs) = p # writes_of cs"
| "writes_of (_ # cs) = writes_of cs"

fun reads_of :: "conn_call list \<Rightarrow> nat" where
  "reads_of [] = 0"
| "reads_of (Read_call n # cs) = Suc (reads_of cs)"
| "reads_of (_ # cs) = reads_of cs"

fun closes_of :: "conn_call list \<Rightarrow> nat" where
  "closes_of [] = 0"
| "closes_of (Close_call # cs) = Suc (closes_of cs)"
| "closes_of (_ # cs) = closes_of cs"


section \<open>crypto/sha1 and encoding/base64\<close>

text \<open>
  The two standard-library functions the default handshake calls, written out so that
  the accept value can be computed. SHA-1 follows FIPS 180-4. A 32-bit word is an
  \<open>int\<close> in \<open>0..<2^32\<close> with the wrap-around of \<open>+\<close>, of the complement and of the
  rotation written out; a byte is an \<open>int\<close> in \<open>0..<256\<close>.
\<close>

type_synonym u32 = int
type_synonym byte = int

definition add32 :: "u32 \<Rightarrow> u32 \<Rightarrow> u32" where
  "add32 a b = (a + b) mod 2 ^ 32"

definition not32 :: "u32 \<Rightarrow> u32" where
  "not32 a = 2 ^ 32 - 1 - a"

definition rotl32 :: "nat \<Rightarrow> u32 \<Rightarrow> u32" where
  "rotl32 n w = ((w * 2 ^ n) mod 2 ^ 32) OR (w div 2 ^ (32 - n))"

definition be64 :: "int \<Rightarrow> byte list" where
  "be64 v = map (\<lambda>k. (v div 2 ^ (8 * k)) mod 256) [7, 6, 5, 4, 3, 2, 1, 0]"

definition be32 :: "u32 \<Rightarrow> byte list" where
  "be32 v = map (\<lambda>k. (v div 2 ^ (8 * k)) mod 256) [3, 2, 1, 0]"

text \<open>Padding: the byte 0x80, zero bytes up to 56 modulo 64, the bit length on 8 bytes.\<close>

definition sha1_pad :: "byte list \<Rightarrow> byte list" where
  "sha1_pad m =
     m @ [0x80] @ replicate ((119 - length m mod 64) mod 64) 0 @ be64 (8 * int (length m))"

fun be_words :: "byte list \<Rightarrow> u32 list" where
  "be_words (a # b # c # d # rest) =
     (a * 2 ^ 24 + b * 2 ^ 16 + c * 2 ^ 8 + d) # be_words rest"
| "be_words _ = []"

function blocks :: "byte list \<Rightarrow> byte list list" where
  "blocks p = (if length p < 64 then [] else take 64 p # blocks (drop 64 p))"
  by pat_completeness auto
termination
  by (relation "measure length") auto

declare blocks.simps [simp del]

type_synonym sha1_state = "u32 \<times> u32 \<times> u32 \<times> u32 \<times> u32"

definition sha1_f :: "nat \<Rightarrow> u32 \<Rightarrow> u32 \<Rightarrow> u32 \<Rightarrow> u32" where
  "sha1_f t b c d =
     (if t < 20 then (b AND c) OR (not32 b AND d)
      else if t < 40 then b XOR c XOR d
      else if t < 60 then (b AND c) OR (b AND d) OR (c AND d)
      else b XOR c XOR d)"

definition sha1_k :: "nat \<Rightarrow> u32" where
  "sha1_k t =
     (if t < 20 then 0x5A827999 else if t < 40 then 0x6ED9EBA1
      else if t < 60 then 0x8F1BBCDC else 0xCA62C1D6)"

text \<open>
  The message schedule is kept as a window of the last 16 words: the head is the word
  of the current round, and the word 16 rounds ahead is appended.
\<close>

definition next_w :: "u32 list \<Rightarrow> u32" where
  "next_w w = rotl32 1 (w ! 13 XOR w ! 8 XOR w ! 2 XOR w ! 0)"

function sha1_rounds :: "nat \<Rightarrow> sha1_state \<Rightarrow> u32 list \<Rightarrow> sha1_state" where
  "sha1_rounds t (a, b, c, d, e) w =
     (if 80 \<le> t then (a, b, c, d, e)
      else sha1_rounds (t + 1)
             (add32 (add32 (add32 (add32 (rotl32 5 a) (sha1_f t b c d)) e) (sha1_k t)) (hd w),
              a, rotl32 30 b, c, d)
             (tl w @ [next_w w]))"
  by pat_completeness auto
termination
  by (relation "measure (\<lambda>(t, s, w). 80 - t)") auto

declare sha1_rounds.simps [simp del]

fun sha1_block :: "sha1_state \<Rightarrow> byte list \<Rightarrow> sha1_state" where
  "sha1_block (h0, h1, h2, h3, h4) blk =
     (case sha1_rounds 0 (h0, h1, h2, h3, h4) (be_words blk) of
        (a, b, c, d, e) \<Rightarrow> (add32 h0 a, add32 h1 b, add32 h2 c, add32 h3 d, add32 h4 e))"

definition sha1_init :: sha1_state where
  "sha1_init = (0x67452301, 0xEFCDAB89, 0x98BADCFE, 0x10325476, 0xC3D2E1F0)"

text \<open>\<open>h := sha1.New(); h.Write([]byte(m)); h.Sum(nil)\<close>: the 20 bytes of the digest.\<close>

definition sha1_Sum :: "string \<Rightarrow> byte list" where
  "sha1_Sum m =
     (case foldl sha1_block sha1_init (blocks (sha1_pad (map of_char m))) of
        (a, b, c, d, e) \<Rightarrow> concat (map be32 [a, b, c, d, e]))"

definition b64_alphabet :: string where
  "b64_alphabet = ''ABCDEFGHIJKLMNOPQRSTUVWXYZabcdefghijklmnopqrstuvwxyz0123456789+/''"

definition b64_char :: "int \<Rightarrow> char" where
  "b64_char i = b64_alphabet ! nat i"

text \<open>\<open>base64.StdEncoding.EncodeToString\<close>: RFC 4648 with padding.\<close>

fun EncodeToString :: "byte list \<Rightarrow> string" where
  "EncodeToString (b0 # b1 # b2 # rest) =
     [b64_char (b0 div 4),
      b64_char ((b0 mod 4) * 16 + b1 div 16),
      b64_char ((b1 mod 16) * 4 + b2 div 64),
      b64_char (b2 mod 64)] @ EncodeToString rest"
| "EncodeToString [b0, b1] =
     [b64_char (b0 div 4),
      b64_char ((b0 mod 4) * 16 + b1 div 16),
      b64_char ((b1 mod 16) * 4),
      CHR ''='']"
| "EncodeToString [b0] =
     [b64_char (b0 div 4), b64_char ((b0 mod 4) * 16), CHR ''='', CHR ''='']"
| "EncodeToString [] = []"

section \<open>The proxy: handshake and payload discard\<close>

definition webSocketMagicString :: string where
  "webSocketMagicString = ''258EAFA5-E914-47DA-95CA-C5AB0DC85B11''"

definition defaultHandshakeStatus :: string where
  "defaultHandshakeStatus = ''101 Switching Protocols''"

definition defaultReadBufferSize :: nat where
  "defaultReadBufferSize = 32 * 1024"

text \<open>
  \<open>performHandshake\<close>. \<open>fmt.Sprintf\<close> with \<open>%s\<close> verbs and string arguments is the
  concatenation of the pieces of the format and the arguments. The number of bytes
  \<open>Write\<close> reports is dropped, as in the source (\<open>_, err := conn.Write(...)\<close>).
\<close>

definition performHandshake :: "Config \<Rightarrow> conn \<Rightarrow> error option \<times> conn" where
  "performHandshake cfg c =
     (if HandshakeCode cfg \<noteq> [] then
        (case conn_Write (''HTTP/1.1 '' @ HandshakeCode cfg @ '' Ok'' @ CRLF @ CRLF) c of
           ((n, err), c') \<Rightarrow> (Wrap err ''failed to write custom handshake response'', c'))
      else
        (let secWebSocketKey = ''Y2FmcnQ2NTRlY2Z2Z3ludTg='';
             secWebSocketAccept =
               EncodeToString (sha1_Sum (secWebSocketKey @ webSocketMagicString));
             resp = ''HTTP/1.1 '' @ defaultHandshakeStatus @ CRLF @
                    ''Upgrade: websocket'' @ CRLF @
                    ''Connection: Upgrade'' @ CRLF @
                    ''Sec-WebSocket-Accept: '' @ secWebSocketAccept @ CRLF @ CRLF
         in case conn_Write resp c of
              ((n, err), c') \<Rightarrow>
                (Wrap err ''failed to write websocket handshake response'', c')))"

text \<open>
  \<open>io.ReadAtLeast(r, buf, min)\<close> of the standard library:
  \<^verbatim>\<open>
  if len(buf) < min { return 0, ErrShortBuffer }
  for n < min && err == nil { nn, err = r.Read(buf[n:]); n += nn }
  if n >= min { err = nil } else if n > 0 && err == EOF { err = ErrUnexpectedEOF }
  \<close>
  The loop carries the number of bytes read, the last error and the filled part of
  the buffer. It runs only after the length check has passed, so \<open>n < min\<close> gives
  \<open>n < len(buf)\<close> and \<open>buf[n:]\<close> is never empty; the guard states this, which is what
  makes every \<open>Read\<close> of the loop consume something of the peer's script.
\<close>

fun script_size :: "(string \<times> error option) list \<Rightarrow> nat" where
  "script_size [] = 0"
| "script_size ((d, e) # rest) = Suc (length d) + script_size rest"

function ReadAtLeast_loop ::
  "nat \<Rightarrow> nat \<Rightarrow> nat \<Rightarrow> error option \<Rightarrow> string \<Rightarrow> conn
     \<Rightarrow> (nat \<times> error option \<times> string) \<times> conn" where
  "ReadAtLeast_loop buflen mn n err buf c =
     (if n < mn \<and> err = None \<and> n < buflen
      then ReadAtLeast_loop buflen mn
             (n + length (fst (fst (conn_Read (buflen - n) c))))
             (snd (fst (conn_Read (buflen - n) c)))
             (buf @ fst (fst (conn_Read (buflen - n) c)))
             (snd (conn_Read (buflen - n) c))
      else ((n, err, buf), c))"
  by pat_completeness auto
termination
proof (relation "measure (\<lambda>(buflen, mn, n, err, buf, c).
          (case err of Some e \<Rightarrow> 0 | None \<Rightarrow> Suc (script_size (incoming c))))")
  show "wf (measure (\<lambda>(buflen, mn, n, err, buf, c).
          (case err of Some e \<Rightarrow> 0 | None \<Rightarrow> Suc (script_size (incoming c)))))"
    by simp
next
  fix buflen mn n :: nat and err :: "error option" and buf :: string and c :: conn
  assume a: "n < mn \<and> err = None \<and> n < buflen"
  show "((buflen, mn, n + length (fst (fst (conn_Read (buflen - n) c))),
          snd (fst (conn_Read (buflen - n) c)),
          buf @ fst (fst (conn_Read (buflen - n) c)),
          snd (conn_Read (buflen - n) c)),
         (buflen, mn, n, err, buf, c))
        \<in> measure (\<lambda>(buflen, mn, n, err, buf, c).
          (case err of Some e \<Rightarrow> 0 | None \<Rightarrow> Suc (script_size (incoming c))))"
  proof (cases "incoming c")
    case Nil
    then show ?thesis using a by (simp add: conn_Read_def)
  next
    case (Cons x rest)
    obtain d e where x: "x = (d, e)" by (cases x)
    show ?thesis
    proof (cases "length d \<le> buflen - n")
      case True
      then show ?thesis using a Cons x
        by (simp add: conn_Read_def split: option.splits)
    next
      case False
      then show ?thesis using a Cons x
        by (simp add: conn_Read_def) arith
    qed
  qed
qed

declare ReadAtLeast_loop.simps [simp del]

definition ReadAtLeast :: "nat \<Rightarrow> nat \<Rightarrow> conn \<Rightarrow> (nat \<times> error option \<times> string) \<times> conn" where
  "ReadAtLeast buflen mn c =
     (if buflen < mn then ((0, Some ErrShortBuffer, []), c)
      else case ReadAtLeast_loop buflen mn 0 None [] c of
        ((n, err, buf), c') \<Rightarrow>
          if mn \<le> n then ((n, None, buf), c')
          else if 0 < n \<and> err = Some EOF then ((n, Some ErrUnexpectedEOF, buf), c')
          else ((n, err, buf), c'))"

text \<open>
  \<open>discardPayload\<close>: the buffer is local and the count is dropped; only the wrapped
  error leaves the function.
\<close>

definition discardPayload :: "conn \<Rightarrow> error option \<times> conn" where
  "discardPayload c =
     (case ReadAtLeast defaultReadBufferSize 5 c of
        ((n, err, buffer), c') \<Rightarrow> (Wrap err ''failed to discard initial payload'', c'))"

text \<open>
  What the peer's script still holds: all the bytes later reads can deliver, and the
  number of bytes that arrive before the first error (end of stream counts as one).
\<close>

definition pending :: "conn \<Rightarrow> string" where
  "pending c = concat (map fst (incoming c))"

fun arriving :: "(string \<times> error option) list \<Rightarrow> nat" where
  "arriving [] = 0"
| "arriving ((d, None) # rest) = length d + arriving rest"
| "arriving ((d, Some e) # rest) = length d"

section \<open>The metrics collector\<close>

text \<open>
  The state outside the connections: the package-level Prometheus collectors of
  \<open>metrics.go\<close> and the default registry they are registered with, and \<open>trace\<close>, the
  list of the calls the proxy makes on its collaborators, in order: the methods of the
  collector (recorded at the call, before the \<open>enabled\<close> guard of the method), the
  logger, and the four steps of the orchestrator.
\<close>

datatype event =
    Ev_performHandshake
  | Ev_DialTimeout string
  | Ev_discardPayload
  | Ev_streamConnections
  | Call_RecordConnection string string
  | Call_RecordConnectionClosed
  | Call_RecordBytesTransferred string int
  | Call_RecordConnectionDuration string nat
  | Call_RecordError string string
  | Log_Error string string
  | Log_Debug string string nat
  | Log_Info string

record world =
  registry :: "string list"
  connectionsTotal :: "string \<times> string \<Rightarrow> nat"
  connectionsActive :: int
  bytesTransferred :: "string \<Rightarrow> int"
  connectionDuration :: "string \<Rightarrow> nat list"
  errorsTotal :: "string \<times> string \<Rightarrow> nat"
  trace :: "event list"

definition emit :: "event \<Rightarrow> world \<Rightarrow> world" where
  "emit e w = w\<lparr>trace := trace w @ [e]\<rparr>"

record Metrics =
  enabled :: bool

text \<open>
  \<open>prometheus.MustRegister\<close> panics when a collector of the same name is already
  registered. A panic is the left summand.
\<close>

datatype panic = AlreadyRegistered string

definition MustRegister :: "string \<Rightarrow> world \<Rightarrow> panic + world" where
  "MustRegister name w =
     (if name \<in> set (registry w) then Inl (AlreadyRegistered name)
      else Inr (w\<lparr>registry := registry w @ [name]\<rparr>))"

definition and_then :: "panic + world \<Rightarrow> (world \<Rightarrow> panic + world) \<Rightarrow> panic + world" where
  "and_then r f = (case r of Inl p \<Rightarrow> Inl p | Inr w \<Rightarrow> f w)"

definition NewMetrics :: "bool \<Rightarrow> world \<Rightarrow> panic + (Metrics \<times> world)" where
  "NewMetrics en w =
     (let m = \<lparr>enabled = en\<rparr> in
      if en then
        (case and_then (and_then (and_then (and_then
                (MustRegister ''gowsoos_connections_total'' w)
                (MustRegister ''gowsoos_connections_active''))
                (MustRegister ''gowsoos_bytes_transferred_total''))
                (MustRegister ''gowsoos_connection_duration_seconds''))
                (MustRegister ''gowsoos_errors_total'') of
           Inl p \<Rightarrow> Inl p
         | Inr w' \<Rightarrow> Inr (m, emit (Log_Info ''Metrics enabled'') w'))
      else Inr (m, w))"

definition RecordConnection :: "Metrics \<Rightarrow> string \<Rightarrow> string \<Rightarrow> world \<Rightarrow> world" where
  "RecordConnection m connType status w =
     (let w1 = emit (Call_RecordConnection connType status) w in
      if \<not> enabled m then w1
      else w1\<lparr>connectionsTotal := (connectionsTotal w1)
                  ((connType, status) := Suc (connectionsTotal w1 (connType, status))),
              connectionsActive := connectionsActive w1 + 1\<rparr>)"

definition RecordConnectionClosed :: "Metrics \<Rightarrow> world \<Rightarrow> world" where
  "RecordConnectionClosed m w =
     (let w1 = emit Call_RecordConnectionClosed w in
      if \<not> enabled m then w1
      else w1\<lparr>connectionsActive := connectionsActive w1 - 1\<rparr>)"

definition RecordBytesTransferred :: "Metrics \<Rightarrow> string \<Rightarrow> int \<Rightarrow> world \<Rightarrow> world" where
  "RecordBytesTransferred m direction bytes w =
     (let w1 = emit (Call_RecordBytesTransferred direction bytes) w in
      if \<not> enabled m then w1
      else w1\<lparr>bytesTransferred := (bytesTransferred w1)
                  (direction := bytesTransferred w1 direction + bytes)\<rparr>)"

definition RecordConnectionDuration :: "Metrics \<Rightarrow> string \<Rightarrow> nat \<Rightarrow> world \<Rightarrow> world" where
  "RecordConnectionDuration m connType duration w =
     (let w1 = emit (Call_RecordConnectionDuration connType duration) w in
      if \<not> enabled m then w1
      else w1\<lparr>connectionDuration := (connectionDuration w1)
                  (connType := connectionDuration w1 connType @ [duration])\<rparr>)"

definition RecordError :: "Metrics \<Rightarrow> string \<Rightarrow> string \<Rightarrow> world \<Rightarrow> world" where
  "RecordError m errorType errorMsg w =
     (let w1 = emit (Call_RecordError errorType errorMsg) w in
      if \<not> enabled m then w1
      else w1\<lparr>errorsTotal := (errorsTotal w1)
                  ((errorType, errorMsg) := Suc (errorsTotal w1 (errorType, errorMsg)))\<rparr>)"

section \<open>The relay\<close>

text \<open>
  \<open>streamConnections\<close> starts two goroutines, each running \<open>io.Copy\<close> through a
  \<open>byteCounter\<close>, and then receives once from \<open>errChan\<close>, a channel of capacity two.
  The interleaving is an input: a schedule names, step after step, which of the three
  runs next. A step of a copying goroutine is one turn of the loop of \<open>io.Copy\<close> (one
  \<open>Read\<close>, and one \<open>Write\<close> of what was read); when the loop ends, the send on
  \<open>errChan\<close> belongs to the same step. With two senders the channel of capacity two
  never blocks a send. A step of the caller is its receive: it blocks (nothing happens)
  while the channel is empty, and returns with the first value otherwise.
\<close>

record relay =
  src :: conn
  dst :: conn
  errChan :: "error option list"
  src_to_dst_done :: bool
  dst_to_src_done :: bool
  src_to_dst_copied :: nat
  dst_to_src_copied :: nat

definition byteCounter_Read ::
  "Metrics \<Rightarrow> string \<Rightarrow> nat \<Rightarrow> conn \<Rightarrow> world \<Rightarrow> (string \<times> error option) \<times> conn \<times> world" where
  "byteCounter_Read m direction cap c w =
     (case conn_Read cap c of
        ((d, err), c') \<Rightarrow>
          ((d, err), c',
           if 0 < length d then RecordBytesTransferred m direction (int (length d)) w else w))"

text \<open>
  One turn of the loop of \<open>io.Copy\<close> (buffer of 32 KiB):
  \<^verbatim>\<open>
  nr, er := src.Read(buf)
  if nr > 0 {
      nw, ew := dst.Write(buf[0:nr]); written += nw
      if ew != nil { err = ew; break }
      if nr != nw { err = ErrShortWrite; break }
  }
  if er != nil { if er != EOF { err = er }; break }
  \<close>
  The result is \<open>None\<close> when the loop goes on and \<open>Some err\<close> when it ends with \<open>err\<close>.
\<close>

definition copy_turn ::
  "Metrics \<Rightarrow> string \<Rightarrow> conn \<Rightarrow> conn \<Rightarrow> world
     \<Rightarrow> error option option \<times> nat \<times> conn \<times> conn \<times> world" where
  "copy_turn m direction rd wr w =
     (case byteCounter_Read m direction (32 * 1024) rd w of
        ((d, er), rd', w') \<Rightarrow>
          if 0 < length d then
            (case conn_Write d wr of
               ((nw, ew), wr') \<Rightarrow>
                 if ew \<noteq> None then (Some ew, nw, rd', wr', w')
                 else if length d \<noteq> nw then (Some (Some ErrShortWrite), nw, rd', wr', w')
                 else if er \<noteq> None
                   then (Some (if er \<noteq> Some EOF then er else None), nw, rd', wr', w')
                 else (None, nw, rd', wr', w'))
          else if er \<noteq> None
            then (Some (if er \<noteq> Some EOF then er else None), 0, rd', wr, w')
          else (None, 0, rd', wr, w'))"

text \<open>The goroutine copying from \<open>src\<close> to \<open>dst\<close>, and the one copying back.\<close>

definition step_src_to_dst :: "Metrics \<Rightarrow> relay \<times> world \<Rightarrow> relay \<times> world" where
  "step_src_to_dst m rw =
     (case rw of (r, w) \<Rightarrow>
        if src_to_dst_done r then (r, w)
        else case copy_turn m ''src_to_dst'' (src r) (dst r) w of
          (res, nw, rd', wr', w') \<Rightarrow>
            (let r1 = r\<lparr>src := rd', dst := wr',
                        src_to_dst_copied := src_to_dst_copied r + nw\<rparr>
             in case res of
                  None \<Rightarrow> (r1, w')
                | Some err \<Rightarrow>
                    if err \<noteq> None \<and> err \<noteq> Some EOF
                    then (r1\<lparr>errChan := errChan r1 @ [Wrap err ''failed to copy from src to dst''],
                             src_to_dst_done := True\<rparr>, w')
                    else (r1\<lparr>errChan := errChan r1 @ [None], src_to_dst_done := True\<rparr>,
                          emit (Log_Debug ''Data transfer completed'' ''src_to_dst''
                                  (src_to_dst_copied r1)) w')))"

definition step_dst_to_src :: "Metrics \<Rightarrow> relay \<times> world \<Rightarrow> relay \<times> world" where
  "step_dst_to_src m rw =
     (case rw of (r, w) \<Rightarrow>
        if dst_to_src_done r then (r, w)
        else case copy_turn m ''dst_to_src'' (dst r) (src r) w of
          (res, nw, rd', wr', w') \<Rightarrow>
            (let r1 = r\<lparr>dst := rd', src := wr',
                        dst_to_src_copied := dst_to_src_copied r + nw\<rparr>
             in case res of
                  None \<Rightarrow> (r1, w')
                | Some err \<Rightarrow>
                    if err \<noteq> None \<and> err \<noteq> Some EOF
                    then (r1\<lparr>errChan := errChan r1 @ [Wrap err ''failed to copy from dst to src''],
                             dst_to_src_done := True\<rparr>, w')
                    else (r1\<lparr>errChan := errChan r1 @ [None], dst_to_src_done := True\<rparr>,
                          emit (Log_Debug ''Data transfer completed'' ''dst_to_src''
                                  (dst_to_src_copied r1)) w')))"

datatype sched = Run_src_to_dst | Run_dst_to_src | Run_main

text \<open>
  The run of a schedule. The Boolean says whether the caller has returned: \<open>True\<close> at
  the receive that finds a value, \<open>False\<close> when the schedule ends with the caller still
  blocked. The value received is dropped (\<open><-errChan\<close> is a statement of its own).
\<close>

fun run_relay :: "Metrics \<Rightarrow> sched list \<Rightarrow> relay \<times> world \<Rightarrow> bool \<times> relay \<times> world" where
  "run_relay m [] rw = (False, rw)"
| "run_relay m (Run_src_to_dst # ss) rw = run_relay m ss (step_src_to_dst m rw)"
| "run_relay m (Run_dst_to_src # ss) rw = run_relay m ss (step_dst_to_src m rw)"
| "run_relay m (Run_main # ss) rw =
     (case errChan (fst rw) of
        [] \<Rightarrow> run_relay m ss rw
      | e # es \<Rightarrow> (True, (fst rw)\<lparr>errChan := es\<rparr>, snd rw))"

definition new_relay :: "conn \<Rightarrow> conn \<Rightarrow> relay" where
  "new_relay s d = \<lparr>src = s, dst = d, errChan = [], src_to_dst_done = False,
                    dst_to_src_done = False, src_to_dst_copied = 0, dst_to_src_copied = 0\<rparr>"

definition streamConnections ::
  "Metrics \<Rightarrow> sched list \<Rightarrow> conn \<Rightarrow> conn \<Rightarrow> world \<Rightarrow> bool \<times> relay \<times> world" where
  "streamConnections m schedule s d w = run_relay m schedule (new_relay s d, w)"

text \<open>The goroutine steps of a schedule alone, without the caller.\<close>

fun run_tasks :: "Metrics \<Rightarrow> sched list \<Rightarrow> relay \<times> world \<Rightarrow> relay \<times> world" where
  "run_tasks m [] rw = rw"
| "run_tasks m (Run_src_to_dst # ss) rw = run_tasks m ss (step_src_to_dst m rw)"
| "run_tasks m (Run_dst_to_src # ss) rw = run_tasks m ss (step_dst_to_src m rw)"
| "run_tasks m (Run_main # ss) rw = run_tasks m ss rw"

section \<open>The orchestrator\<close>

text \<open>
  What \<open>HandleConnection\<close> takes from outside: the result of \<open>net.DialTimeout\<close> (an
  error, or the connection to the backend), the schedule of the relay, and the time
  \<open>time.Since(startTime)\<close> reads when the relay has returned.
\<close>

record env =
  dial_result :: "error + conn"
  schedule :: "sched list"
  elapsed :: nat

datatype outcome = Returned | Blocked_in_relay

text \<open>
  The deferred calls, in the order they run at the return: \<open>destConn.Close()\<close> when the
  dial has succeeded, then \<open>clientConn.Close()\<close> and \<open>RecordConnectionClosed()\<close>.
\<close>

definition deferred ::
  "Metrics \<Rightarrow> conn \<Rightarrow> conn option \<Rightarrow> world \<Rightarrow> outcome \<times> conn \<times> conn option \<times> world" where
  "deferred m clientConn destConn w =
     (Returned, conn_Close clientConn, map_option conn_Close destConn,
      RecordConnectionClosed m w)"

definition HandleConnection ::
  "Config \<Rightarrow> Metrics \<Rightarrow> env \<Rightarrow> conn \<Rightarrow> bool \<Rightarrow> world
     \<Rightarrow> outcome \<times> conn \<times> conn option \<times> world" where
  "HandleConnection cfg m ev clientConn isTLSClient w =
     (let connType = (if isTLSClient then ''tls'' else ''http'') in
      case performHandshake cfg clientConn of
        (Some err, c1) \<Rightarrow>
          deferred m c1 None
            (RecordConnection m connType ''failed''
              (RecordError m ''handshake'' (Error err)
                (emit (Log_Error ''Handshake failed'' (Error err))
                  (emit Ev_performHandshake w))))
      | (None, c1) \<Rightarrow>
          (case dial_result ev of
             Inl err \<Rightarrow>
               deferred m c1 None
                 (RecordConnection m connType ''failed''
                   (RecordError m ''destination'' (Error err)
                     (emit (Log_Error ''Failed to connect to destination'' (Error err))
                       (emit (Ev_DialTimeout (DstAddress cfg))
                         (emit Ev_performHandshake w)))))
           | Inr destConn \<Rightarrow>
               (let w2 = RecordConnection m connType ''success''
                           (emit (Ev_DialTimeout (DstAddress cfg))
                             (emit Ev_performHandshake w))
                in if isTLSClient \<and> TLSMode cfg = ''stunnel'' then
                     (case streamConnections m (schedule ev) destConn c1
                             (emit Ev_streamConnections w2) of
                        (False, r, w3) \<Rightarrow> (Blocked_in_relay, dst r, Some (src r), w3)
                      | (True, r, w3) \<Rightarrow>
                          deferred m (dst r) (Some (src r))
                            (RecordConnectionDuration m (connType @ ''-stunnel'')
                               (elapsed ev) w3))
                   else
                     (case discardPayload c1 of
                        (Some err, c2) \<Rightarrow>
                          deferred m c2 (Some destConn)
                            (RecordError m ''payload'' (Error err)
                              (emit (Log_Error ''Failed to discard payload'' (Error err))
                                (emit Ev_discardPayload w2)))
                      | (None, c2) \<Rightarrow>
                          (case streamConnections m (schedule ev) destConn c2
                                  (emit Ev_streamConnections (emit Ev_discardPayload w2)) of
                             (False, r, w3) \<Rightarrow> (Blocked_in_relay, dst r, Some (src r), w3)
                           | (True, r, w3) \<Rightarrow>
                               deferred m (dst r) (Some (src r))
                                 (RecordConnectionDuration m connType (elapsed ev) w3))))))"

text \<open>Projections of a trace used to state the claims.\<close>

fun is_step :: "event \<Rightarrow> bool" where
  "is_step Ev_performHandshake = True"
| "is_step (Ev_DialTimeout a) = True"
| "is_step Ev_discardPayload = True"
| "is_step Ev_streamConnections = True"
| "is_step _ = False"

fun is_RecordConnection :: "event \<Rightarrow> bool" where
  "is_RecordConnection (Call_RecordConnection t s) = True"
| "is_RecordConnection _ = False"

fun is_RecordError :: "event \<Rightarrow> bool" where
  "is_RecordError (Call_RecordError t e) = True"
| "is_RecordError _ = False"

fun is_Log_Error :: "event \<Rightarrow> bool" where
  "is_Log_Error (Log_Error msg e) = True"
| "is_Log_Error _ = False"

text \<open>The events a relay can add to the trace: byte counts and its debug line.\<close>

fun is_relay_event :: "event \<Rightarrow> bool" where
  "is_relay_event (Call_RecordBytesTransferred d n) = True"
| "is_relay_event (Log_Debug msg d n) = True"
| "is_relay_event _ = False"
section \<open>Helper facts\<close>

lemma writes_of_append: "writes_of (xs @ ys) = writes_of xs @ writes_of ys"
  by (induction xs rule: writes_of.induct) auto

lemma reads_of_append: "reads_of (xs @ ys) = reads_of xs + reads_of ys"
  by (induction xs rule: reads_of.induct) auto

lemma closes_of_append: "closes_of (xs @ ys) = closes_of xs + closes_of ys"
  by (induction xs rule: closes_of.induct) auto


lemma replicate_numeral_eval: "replicate (numeral k) x = x # replicate (pred_numeral k) x"
  by (simp add: numeral_eq_Suc)

lemma sha1_of_fixed_key:
  "sha1_Sum ''Y2FmcnQ2NTRlY2Z2Z3ludTg=258EAFA5-E914-47DA-95CA-C5AB0DC85B11'' =
     [74, 49, 237, 5, 83, 32, 200, 20, 111, 161, 69, 8, 143, 61, 107, 26, 61, 39, 43, 72]"
  by (simp add: sha1_Sum_def sha1_pad_def be64_def be32_def blocks.simps
      replicate_numeral_eval sha1_init_def sha1_rounds.simps rotl32_def sha1_f_def
      sha1_k_def next_w_def add32_def not32_def)

lemma accept_of_fixed_key:
  "EncodeToString (sha1_Sum (''Y2FmcnQ2NTRlY2Z2Z3ludTg='' @ webSocketMagicString)) =
     ''SjHtBVMgyBRvoUUIjz1rGj0nK0g=''"
proof -
  have "''Y2FmcnQ2NTRlY2Z2Z3ludTg='' @ webSocketMagicString =
        ''Y2FmcnQ2NTRlY2Z2Z3ludTg=258EAFA5-E914-47DA-95CA-C5AB0DC85B11''"
    by (simp add: webSocketMagicString_def)
  then show ?thesis
    by (simp only: sha1_of_fixed_key) (simp add: b64_char_def b64_alphabet_def)
qed

lemma conn_Write_calls: "calls (snd (conn_Write p c)) = calls c @ [Write_call p]"
  by (simp add: conn_Write_def split: list.splits)

lemma conn_Write_incoming: "incoming (snd (conn_Write p c)) = incoming c"
  by (simp add: conn_Write_def split: list.splits)

lemma performHandshake_custom:
  "HandshakeCode cfg \<noteq> [] \<Longrightarrow>
   snd (performHandshake cfg c) =
     snd (conn_Write (''HTTP/1.1 '' @ HandshakeCode cfg @ '' Ok'' @ CRLF @ CRLF) c)"
  by (simp add: performHandshake_def split: prod.splits)

lemma performHandshake_default:
  "HandshakeCode cfg = [] \<Longrightarrow>
   snd (performHandshake cfg c) =
     snd (conn_Write (''HTTP/1.1 101 Switching Protocols'' @ CRLF @
                      ''Upgrade: websocket'' @ CRLF @
                      ''Connection: Upgrade'' @ CRLF @
                      ''Sec-WebSocket-Accept: '' @
                      EncodeToString (sha1_Sum (''Y2FmcnQ2NTRlY2Z2Z3ludTg='' @
                                                webSocketMagicString)) @
                      CRLF @ CRLF) c)"
  by (simp add: performHandshake_def defaultHandshakeStatus_def Let_def split: prod.splits)

section \<open>Handshake\<close>

text \<open>
  C1. With no custom handshake code configured, \<open>performHandshake\<close> makes exactly one
  call on the client connection: a \<open>Write\<close> of the WebSocket upgrade response whose
  \<open>Sec-WebSocket-Accept\<close> value is the base64 encoding of the SHA-1 digest of the
  hardcoded key followed by the GUID. The bytes written do not depend on the
  connection or on anything the client sends (the right-hand side mentions neither),
  the accept value is the constant \<open>SjHtBVMgyBRvoUUIjz1rGj0nK0g=\<close>, no \<open>Read\<close> is made
  and the client's pending input is untouched.
\<close>

theorem C1_default_handshake_constant:
  assumes "HandshakeCode cfg = []"
  shows "calls (snd (performHandshake cfg c)) =
           calls c @
           [Write_call (''HTTP/1.1 101 Switching Protocols'' @ [CHR 0x0D, CHR 0x0A] @
                        ''Upgrade: websocket'' @ [CHR 0x0D, CHR 0x0A] @
                        ''Connection: Upgrade'' @ [CHR 0x0D, CHR 0x0A] @
                        ''Sec-WebSocket-Accept: '' @
                        EncodeToString (sha1_Sum (''Y2FmcnQ2NTRlY2Z2Z3ludTg='' @
                                                  ''258EAFA5-E914-47DA-95CA-C5AB0DC85B11'')) @
                        [CHR 0x0D, CHR 0x0A, CHR 0x0D, CHR 0x0A])]
         \<and> EncodeToString (sha1_Sum (''Y2FmcnQ2NTRlY2Z2Z3ludTg='' @
                                      ''258EAFA5-E914-47DA-95CA-C5AB0DC85B11'')) =
             ''SjHtBVMgyBRvoUUIjz1rGj0nK0g=''
         \<and> reads_of (calls (snd (performHandshake cfg c))) = reads_of (calls c)
         \<and> incoming (snd (performHandshake cfg c)) = incoming c"
proof -
  have acc: "EncodeToString (sha1_Sum (''Y2FmcnQ2NTRlY2Z2Z3ludTg='' @
                                   ''258EAFA5-E914-47DA-95CA-C5AB0DC85B11'')) =
           ''SjHtBVMgyBRvoUUIjz1rGj0nK0g=''"
    using accept_of_fixed_key by (simp only: webSocketMagicString_def)
  have w: "calls (snd (performHandshake cfg c)) =
           calls c @
           [Write_call (''HTTP/1.1 101 Switching Protocols'' @ CRLF @
                        ''Upgrade: websocket'' @ CRLF @
                        ''Connection: Upgrade'' @ CRLF @
                        ''Sec-WebSocket-Accept: '' @
                        EncodeToString (sha1_Sum (''Y2FmcnQ2NTRlY2Z2Z3ludTg='' @
                                                  ''258EAFA5-E914-47DA-95CA-C5AB0DC85B11'')) @
                        CRLF @ CRLF)]"
    using assms
    by (simp only: performHandshake_default conn_Write_calls webSocketMagicString_def)
  have r: "reads_of (calls (snd (performHandshake cfg c))) = reads_of (calls c)"
    by (simp only: w reads_of_append reads_of.simps add_0_right)
  have i: "incoming (snd (performHandshake cfg c)) = incoming c"
    using assms by (simp only: performHandshake_default conn_Write_incoming)
  from w have w': "calls (snd (performHandshake cfg c)) =
           calls c @
           [Write_call (''HTTP/1.1 101 Switching Protocols'' @ [CHR 0x0D, CHR 0x0A] @
                        ''Upgrade: websocket'' @ [CHR 0x0D, CHR 0x0A] @
                        ''Connection: Upgrade'' @ [CHR 0x0D, CHR 0x0A] @
                        ''Sec-WebSocket-Accept: '' @
                        EncodeToString (sha1_Sum (''Y2FmcnQ2NTRlY2Z2Z3ludTg='' @
                                                  ''258EAFA5-E914-47DA-95CA-C5AB0DC85B11'')) @
                        [CHR 0x0D, CHR 0x0A, CHR 0x0D, CHR 0x0A])]"
    by (simp only: CRLF_def append.simps)
  from w' acc r i show ?thesis
    by (intro conjI)
qed

theorem C1_default_handshake_witness:
  "calls (snd (performHandshake DefaultConfig
      \<lparr>incoming = [(''GET / HTTP/1.1'', None)], write_results = [], calls = []\<rparr>)) =
     [Write_call (''HTTP/1.1 101 Switching Protocols'' @ [CHR 0x0D, CHR 0x0A] @
                  ''Upgrade: websocket'' @ [CHR 0x0D, CHR 0x0A] @
                  ''Connection: Upgrade'' @ [CHR 0x0D, CHR 0x0A] @
                  ''Sec-WebSocket-Accept: SjHtBVMgyBRvoUUIjz1rGj0nK0g='' @
                  [CHR 0x0D, CHR 0x0A, CHR 0x0D, CHR 0x0A])]"
proof -
  have h: "HandshakeCode DefaultConfig = []"
    by (simp add: DefaultConfig_def)
  show ?thesis
    using C1_default_handshake_constant [OF h,
        of "\<lparr>incoming = [(''GET / HTTP/1.1'', None)], write_results = [], calls = []\<rparr>"]
    by simp
qed

text \<open>
  C2. With a non-empty custom handshake code \<open>C\<close> configured, \<open>performHandshake\<close> makes
  exactly one call on the client connection: a \<open>Write\<close> of the bytes
  \<open>HTTP/1.1 C Ok\r\n\r\n\<close>. It makes no \<open>Read\<close> and leaves the client's pending input
  untouched.
\<close>

theorem C2_custom_handshake_exact:
  assumes "HandshakeCode cfg \<noteq> []"
  shows "calls (snd (performHandshake cfg c)) =
           calls c @ [Write_call (''HTTP/1.1 '' @ HandshakeCode cfg @ '' Ok'' @
                                  [CHR 0x0D, CHR 0x0A, CHR 0x0D, CHR 0x0A])]
         \<and> reads_of (calls (snd (performHandshake cfg c))) = reads_of (calls c)
         \<and> incoming (snd (performHandshake cfg c)) = incoming c"
  using assms
  by (simp add: performHandshake_custom conn_Write_calls conn_Write_incoming
      reads_of_append CRLF_def)

theorem C2_custom_handshake_witness:
  "calls (snd (performHandshake (DefaultConfig\<lparr>HandshakeCode := ''200''\<rparr>)
      \<lparr>incoming = [(''GET / HTTP/1.1'', None)], write_results = [], calls = []\<rparr>)) =
     [Write_call (''HTTP/1.1 200 Ok'' @ [CHR 0x0D, CHR 0x0A, CHR 0x0D, CHR 0x0A])]
   \<and> reads_of (calls (snd (performHandshake (DefaultConfig\<lparr>HandshakeCode := ''200''\<rparr>)
      \<lparr>incoming = [(''GET / HTTP/1.1'', None)], write_results = [], calls = []\<rparr>))) = 0"
  using C2_custom_handshake_exact [of "DefaultConfig\<lparr>HandshakeCode := ''200''\<rparr>"
      "\<lparr>incoming = [(''GET / HTTP/1.1'', None)], write_results = [], calls = []\<rparr>"]
  by simp

section \<open>Payload discard\<close>

lemma conn_Read_pending:
  "pending c = fst (fst (conn_Read cap c)) @ pending (snd (conn_Read cap c))"
  by (auto simp: conn_Read_def pending_def split: list.splits)

lemma conn_Read_length: "length (fst (fst (conn_Read cap c))) \<le> cap"
  by (auto simp: conn_Read_def split: list.splits)

lemma loop_stop:
  "\<not> (n < mn \<and> err = None \<and> n < buflen) \<Longrightarrow>
   ReadAtLeast_loop buflen mn n err buf c = ((n, err, buf), c)"
  by (subst ReadAtLeast_loop.simps) auto

lemma loop_step:
  "n < mn \<and> err = None \<and> n < buflen \<Longrightarrow>
   ReadAtLeast_loop buflen mn n err buf c =
   ReadAtLeast_loop buflen mn
     (n + length (fst (fst (conn_Read (buflen - n) c))))
     (snd (fst (conn_Read (buflen - n) c)))
     (buf @ fst (fst (conn_Read (buflen - n) c)))
     (snd (conn_Read (buflen - n) c))"
  by (subst ReadAtLeast_loop.simps) simp

lemma loop_stream:
  "ReadAtLeast_loop buflen mn n err buf c = ((n', err', buf'), c') \<Longrightarrow>
   buf @ pending c = buf' @ pending c' \<and> n' + length buf = n + length buf'"
proof (induction buflen mn n err buf c rule: ReadAtLeast_loop.induct)
  case (1 buflen mn n err buf c)
  show ?case
  proof (cases "n < mn \<and> err = None \<and> n < buflen")
    case True
    from "1.prems"(1) have r: "ReadAtLeast_loop buflen mn
             (n + length (fst (fst (conn_Read (buflen - n) c))))
             (snd (fst (conn_Read (buflen - n) c)))
             (buf @ fst (fst (conn_Read (buflen - n) c)))
             (snd (conn_Read (buflen - n) c)) = ((n', err', buf'), c')"
      by (simp only: loop_step [OF True])
    from "1.IH" [OF True r] conn_Read_pending [of c "buflen - n"]
    show ?thesis by simp
  next
    case False
    with "1.prems" show ?thesis by (simp add: loop_stop)
  qed
qed

lemma loop_bound:
  "ReadAtLeast_loop buflen mn n err buf c = ((n', err', buf'), c') \<Longrightarrow>
   n \<le> buflen \<Longrightarrow> n' \<le> buflen"
proof (induction buflen mn n err buf c rule: ReadAtLeast_loop.induct)
  case (1 buflen mn n err buf c)
  show ?case
  proof (cases "n < mn \<and> err = None \<and> n < buflen")
    case True
    from "1.prems"(1) have r: "ReadAtLeast_loop buflen mn
             (n + length (fst (fst (conn_Read (buflen - n) c))))
             (snd (fst (conn_Read (buflen - n) c)))
             (buf @ fst (fst (conn_Read (buflen - n) c)))
             (snd (conn_Read (buflen - n) c)) = ((n', err', buf'), c')"
      by (simp only: loop_step [OF True])
    have "n + length (fst (fst (conn_Read (buflen - n) c))) \<le> buflen"
      using conn_Read_length [of "buflen - n" c] "1.prems"(2) by arith
    from "1.IH" [OF True r this] show ?thesis .
  next
    case False
    with "1.prems" show ?thesis by (simp add: loop_stop)
  qed
qed

lemma loop_exit:
  "ReadAtLeast_loop buflen mn n err buf c = ((n', err', buf'), c') \<Longrightarrow>
   \<not> (n' < mn \<and> err' = None \<and> n' < buflen)"
proof (induction buflen mn n err buf c rule: ReadAtLeast_loop.induct)
  case (1 buflen mn n err buf c)
  show ?case
  proof (cases "n < mn \<and> err = None \<and> n < buflen")
    case True
    from "1.prems"(1) have r: "ReadAtLeast_loop buflen mn
             (n + length (fst (fst (conn_Read (buflen - n) c))))
             (snd (fst (conn_Read (buflen - n) c)))
             (buf @ fst (fst (conn_Read (buflen - n) c)))
             (snd (conn_Read (buflen - n) c)) = ((n', err', buf'), c')"
      by (simp only: loop_step [OF True])
    from "1.IH" [OF True r] show ?thesis .
  next
    case False
    with "1.prems" show ?thesis by (simp add: loop_stop)
  qed
qed

lemma loop_arriving:
  "ReadAtLeast_loop buflen mn n err buf c = ((n', err', buf'), c') \<Longrightarrow>
   err = None \<Longrightarrow> mn \<le> buflen \<Longrightarrow> n \<le> buflen \<Longrightarrow>
   (mn \<le> n') = (mn \<le> n + arriving (incoming c))"
proof (induction buflen mn n err buf c rule: ReadAtLeast_loop.induct)
  case (1 buflen mn n err buf c)
  show ?case
  proof (cases "n < mn \<and> err = None \<and> n < buflen")
    case True
    let ?rd = "conn_Read (buflen - n) c"
    from "1.prems"(1) have r: "ReadAtLeast_loop buflen mn
             (n + length (fst (fst ?rd))) (snd (fst ?rd)) (buf @ fst (fst ?rd)) (snd ?rd)
           = ((n', err', buf'), c')"
      by (simp only: loop_step [OF True])
    have len: "n + length (fst (fst ?rd)) \<le> buflen"
      using conn_Read_length [of "buflen - n" c] "1.prems"(4) by arith
    show ?thesis
    proof (cases "snd (fst ?rd)")
      case None
      from "1.IH" [OF True r None "1.prems"(3) len]
      have ih: "(mn \<le> n') = (mn \<le> n + length (fst (fst ?rd)) + arriving (incoming (snd ?rd)))" .
      show ?thesis
      proof (cases "incoming c")
        case Nil
        with None show ?thesis by (simp add: conn_Read_def)
      next
        case (Cons x rest)
        obtain d e where x: "x = (d, e)" by (cases x)
        show ?thesis
        proof (cases "length d \<le> buflen - n")
          case le: True
          with Cons x None have "e = None" by (simp add: conn_Read_def)
          with ih Cons x le show ?thesis by (simp add: conn_Read_def add.assoc)
        next
          case gt: False
          with Cons x have n1: "n + length (fst (fst ?rd)) = buflen"
            using True by (simp add: conn_Read_def)
          with r have "n' = buflen"
            using "1.prems"(3) by (simp add: loop_stop)
          moreover have "buflen - n < arriving (incoming c)"
            using gt Cons x by (cases e) auto
          ultimately show ?thesis using "1.prems"(3) True by simp
        qed
      qed
    next
      case (Some e')
      with r have n': "n' = n + length (fst (fst ?rd))"
        by (simp add: loop_stop)
      show ?thesis
      proof (cases "incoming c")
        case Nil
        with n' True show ?thesis by (simp add: conn_Read_def)
      next
        case (Cons x rest)
        obtain d e where x: "x = (d, e)" by (cases x)
        from Some Cons x have "length d \<le> buflen - n \<and> e = Some e'"
          by (simp add: conn_Read_def split: if_splits)
        with n' Cons x show ?thesis by (simp add: conn_Read_def)
      qed
    qed
  next
    case False
    with "1.prems" have "n' = n" by (simp add: loop_stop)
    moreover from False "1.prems" have "mn \<le> n" by simp
    ultimately show ?thesis by simp
  qed
qed

lemma ReadAtLeast_facts:
  assumes "ReadAtLeast buflen mn c = ((n, err, buf), c')" and "mn \<le> buflen"
  shows "pending c = buf @ pending c'" and "n = length buf" and "n \<le> buflen"
    and "(err = None) = (mn \<le> n)" and "(mn \<le> n) = (mn \<le> arriving (incoming c))"
proof -
  obtain n0 err0 buf0 c0 where
    l: "ReadAtLeast_loop buflen mn 0 None [] c = ((n0, err0, buf0), c0)"
    by (metis prod_cases3 surj_pair)
  from assms l have eq: "n = n0" "buf = buf0" "c' = c0"
    and e: "err = (if mn \<le> n0 then None
               else if 0 < n0 \<and> err0 = Some EOF then Some ErrUnexpectedEOF else err0)"
    by (auto simp: ReadAtLeast_def split: if_splits)
  from loop_stream [OF l] eq show "pending c = buf @ pending c'" and "n = length buf"
    by simp_all
  from loop_bound [OF l] eq show "n \<le> buflen" by simp
  from loop_exit [OF l] assms(2) have "n0 < mn \<Longrightarrow> err0 \<noteq> None" by auto
  with e eq show "(err = None) = (mn \<le> n)" by (auto split: if_splits)
  from loop_arriving [OF l] assms(2) eq
  show "(mn \<le> n) = (mn \<le> arriving (incoming c))" by simp
qed
end
